theory Spec2Isabelle
  imports Main
begin

section \<open>The droplet lifecycle controller (MinecraftServerService)\<close>

text \<open>
  The model follows \<^verbatim>\<open>MinecraftServerService\<close> of
  \<^verbatim>\<open>src/src/discord-bot.service.ts\<close>. The fields of the class are a record, every call
  the class makes on a collaborator (the logger, the console, the cloud client, the SSH
  library, the timer, the creation callback) is an event appended to a trace, and what a
  collaborator answers is an argument of the function that awaits the answer: a value of
  \<open>error + 'a\<close>, \<open>Inl\<close> for a rejected promise or a thrown exception.

  An \<^verbatim>\<open>async\<close> function that the source calls without \<^verbatim>\<open>await\<close> runs up to its
  first \<^verbatim>\<open>await\<close> inside the caller and is then suspended: the model adds a task to the
  list of pending tasks and resumes it in a later step. An \<^verbatim>\<open>async\<close> function that is
  awaited is modelled from call to completion as one function.
\<close>

subsection \<open>Data\<close>

datatype ServerStatus = Up | Down | Starting | Stopping | Weird

datatype error = Error string

text \<open>The object literal stored in \<^verbatim>\<open>sshConfig\<close>.\<close>

record ssh_config =
  host :: "string option"
  username :: string
  privateKey :: "string option"

text \<open>
  A callback \<^verbatim>\<open>() => void\<close> is known by a number; its second component says whether
  calling it throws.
\<close>

datatype callback = Callback nat "error option"

text \<open>The fields of the class (the logger and the cloud client are collaborators).\<close>

record controller =
  privateKeyPath :: "string option"
  sshConfig :: ssh_config
  creationCallback :: "callback option"
  status :: ServerStatus
  dropletId :: "nat option"
  ipv4 :: "string option"

text \<open>A \<^verbatim>\<open>NodeSSH\<close> object is known by the number of its allocation.\<close>

type_synonym session = nat

text \<open>\<^verbatim>\<open>SSHExecCommandResponse\<close> of node-ssh.\<close>

record exec_response =
  stdout :: string
  stderr :: string
  code :: "int option"
  signal :: "string option"

text \<open>What \<^verbatim>\<open>getDroplet\<close> resolves to: \<^verbatim>\<open>res.status\<close> and \<^verbatim>\<open>res.networks.v4.ip_address\<close>.\<close>

record droplet_info =
  res_status :: string
  ip_address :: "string option"

datatype event =
    LoggerWarn string
  | LoggerLog string
  | LoggerError string
  | LoggerErrorObj error
  | ConsoleLog string
  | CreateDropletCall
  | DeleteDropletCall "nat option"
  | GetDropletCall "nat option"
  | NewSSH session
  | Connect session ssh_config
  | ExecCommand session string
  | Dispose session
  | SetTimeout nat
  | InvokeCallback nat
  | UnhandledRejection error

text \<open>
  A suspended \<^verbatim>\<open>async\<close> call, or a timer: \<open>AwaitGetDroplet\<close> is \<^verbatim>\<open>waitForDroplet\<close> at
  \<^verbatim>\<open>await this.doService.getDroplet(...)\<close>, \<open>Timer\<close> is the function handed to
  \<^verbatim>\<open>setTimeout\<close>, \<open>AwaitConnect\<close> is \<^verbatim>\<open>initDroplet\<close> at \<^verbatim>\<open>await ssh.connect(...)\<close>, and
  \<open>AwaitExec ssh command disposeSSH logOutput\<close> is a \<^verbatim>\<open>runSSHCommand\<close> that nobody awaits,
  at \<^verbatim>\<open>await ssh.execCommand(command)\<close>.
\<close>

datatype task =
    AwaitGetDroplet
  | Timer nat
  | AwaitConnect session
  | AwaitExec session string bool bool

record system =
  ctl :: controller
  pending :: "task list"
  trace :: "event list"
  next_ssh :: session

text \<open>
  The receiver of a method call. \<^verbatim>\<open>setTimeout(this.waitForDroplet, 5000)\<close> hands the
  timer the bare prototype method, so the timer calls it with a receiver that is not
  the service.
\<close>

datatype this_ref = ThisService | ThisTimeout

subsection \<open>Helpers\<close>

definition emit :: "event \<Rightarrow> system \<Rightarrow> system" where
  "emit e s = s\<lparr>trace := trace s @ [e]\<rparr>"

definition set_status :: "ServerStatus \<Rightarrow> system \<Rightarrow> system" where
  "set_status n s = s\<lparr>ctl := (ctl s)\<lparr>status := n\<rparr>\<rparr>"

definition suspend :: "task \<Rightarrow> system \<Rightarrow> system" where
  "suspend t s = s\<lparr>pending := pending s @ [t]\<rparr>"

text \<open>Decimal digits of a number, as a template literal prints it.\<close>

fun string_of_nat :: "nat \<Rightarrow> string" where
  "string_of_nat n =
     (if n < 10 then [char_of (48 + n)]
      else string_of_nat (n div 10) @ [char_of (48 + n mod 10)])"

definition show_id :: "nat option \<Rightarrow> string" where
  "show_id i = (case i of None \<Rightarrow> ''undefined'' | Some n \<Rightarrow> string_of_nat n)"

fun show_status :: "ServerStatus \<Rightarrow> string" where
  "show_status Up = ''up''"
| "show_status Down = ''down''"
| "show_status Starting = ''starting''"
| "show_status Stopping = ''stopping''"
| "show_status Weird = ''weird''"

text \<open>The keys that \<^verbatim>\<open>for (const k in array)\<close> enumerates: the indices, as strings.\<close>

definition for_in_keys :: "'a list \<Rightarrow> string list" where
  "for_in_keys xs = map string_of_nat [0..<length xs]"

text \<open>\<^verbatim>\<open>!x\<close> on an optional string: true for \<^verbatim>\<open>undefined\<close> and for the empty string.\<close>

definition falsy :: "string option \<Rightarrow> bool" where
  "falsy x = (case x of None \<Rightarrow> True | Some v \<Rightarrow> v = [])"

text \<open>The first pending task of a kind, and the tasks left.\<close>

fun take_task :: "(task \<Rightarrow> bool) \<Rightarrow> task list \<Rightarrow> (task \<times> task list) option" where
  "take_task P [] = None"
| "take_task P (t # ts) =
     (if P t then Some (t, ts)
      else (case take_task P ts of None \<Rightarrow> None | Some (u, us) \<Rightarrow> Some (u, t # us)))"

subsection \<open>The program\<close>

definition initializationScript :: "string list" where
  "initializationScript =
    [''mkdir -p /mnt/discord_mcserver'',
     ''mount /dev/sda /mnt/discord_mcserver'',
     ''apt install openjdk-11-jre-headless -y'',
     ''ufw allow 25565/tcp'',
     ''ufw allow 25565/udp'',
     ''useradd --home-dir /mnt/discord_mcserver/minecraft --uid=10001 minecraft'',
     ''cp /mnt/discord_mcserver/minecraft.service /etc/systemd/system/minecraft.service'',
     ''systemctl daemon-reload'',
     ''systemctl enable --now minecraft.service'']"

text \<open>
  The constructor, after the field initialisers: \<^verbatim>\<open>ipv4\<close> and \<^verbatim>\<open>dropletId\<close> have none,
  and \<^verbatim>\<open>sshConfig.host\<close> is the value \<^verbatim>\<open>this.ipv4\<close> has at that moment. The argument is what
  \<^verbatim>\<open>configService.get("SSH_PRIVATEKEY")\<close> returns.
\<close>

definition fields_init :: controller where
  "fields_init =
    \<lparr>privateKeyPath = None,
     sshConfig = \<lparr>host = None, username = [], privateKey = None\<rparr>,
     creationCallback = None, status = Down, dropletId = None, ipv4 = None\<rparr>"

definition constructor :: "string option \<Rightarrow> controller" where
  "constructor key =
    (let this = fields_init\<lparr>privateKeyPath := key\<rparr>
     in this\<lparr>sshConfig :=
          \<lparr>host = ipv4 this, username = ''root'', privateKey = privateKeyPath this\<rparr>\<rparr>)"

definition initial :: "string option \<Rightarrow> system" where
  "initial key = \<lparr>ctl = constructor key, pending = [], trace = [], next_ssh = 0\<rparr>"

text \<open>
  \<^verbatim>\<open>runSSHCommand\<close> up to \<^verbatim>\<open>await ssh.execCommand(command)\<close>: it returns the session used
  and \<^verbatim>\<open>disposeSSH\<close>. The promise of \<^verbatim>\<open>ssh.connect\<close> is not awaited.
\<close>

definition runSSHCommand_begin ::
    "string \<Rightarrow> session option \<Rightarrow> system \<Rightarrow> (session \<times> bool) \<times> system" where
  "runSSHCommand_begin command ssh s =
    (case ssh of
       None \<Rightarrow>
         (let sid = next_ssh s;
              s1 = emit (NewSSH sid) (s\<lparr>next_ssh := Suc sid\<rparr>);
              s2 = emit (Connect sid (sshConfig (ctl s1))) s1
          in ((sid, True), emit (ExecCommand sid command) s2))
     | Some sid \<Rightarrow> ((sid, False), emit (ExecCommand sid command) s))"

text \<open>\<^verbatim>\<open>runSSHCommand\<close> from the answer of \<^verbatim>\<open>execCommand\<close> on.\<close>

definition runSSHCommand_end ::
    "string \<Rightarrow> session \<Rightarrow> bool \<Rightarrow> bool \<Rightarrow> error + exec_response \<Rightarrow> system
      \<Rightarrow> (error + exec_response) \<times> system" where
  "runSSHCommand_end command sid disposeSSH logOutput r s =
    (case r of
       Inl e \<Rightarrow> (Inl e, s)
     | Inr result \<Rightarrow>
         (let s1 = (if logOutput
                    then emit (ConsoleLog (stderr result))
                           (emit (ConsoleLog (stdout result))
                              (emit (ConsoleLog (''Command: '' @ command @ '', Output:'')) s))
                    else s);
              s2 = (if disposeSSH then emit (Dispose sid) s1 else s1)
          in (Inr result, s2)))"

text \<open>An awaited \<^verbatim>\<open>runSSHCommand(command, ssh, logOutput)\<close>; \<open>r\<close> is the answer of \<^verbatim>\<open>execCommand\<close>.\<close>

definition runSSHCommand ::
    "string \<Rightarrow> session option \<Rightarrow> bool \<Rightarrow> error + exec_response \<Rightarrow> system
      \<Rightarrow> (error + exec_response) \<times> system" where
  "runSSHCommand command ssh logOutput r s =
    (case runSSHCommand_begin command ssh s of
       ((sid, disposeSSH), s1) \<Rightarrow> runSSHCommand_end command sid disposeSSH logOutput r s1)"

text \<open>A \<^verbatim>\<open>runSSHCommand\<close> call whose promise is dropped.\<close>

definition runSSHCommand_detached :: "string \<Rightarrow> session option \<Rightarrow> bool \<Rightarrow> system \<Rightarrow> system" where
  "runSSHCommand_detached command ssh logOutput s =
    (case runSSHCommand_begin command ssh s of
       ((sid, disposeSSH), s1) \<Rightarrow> suspend (AwaitExec sid command disposeSSH logOutput) s1)"

definition runSSHCommand_settle ::
    "session \<Rightarrow> string \<Rightarrow> bool \<Rightarrow> bool \<Rightarrow> error + exec_response \<Rightarrow> system \<Rightarrow> system" where
  "runSSHCommand_settle sid command disposeSSH logOutput r s =
    (case runSSHCommand_end command sid disposeSSH logOutput r s of
       (Inl e, s1) \<Rightarrow> emit (UnhandledRejection e) s1
     | (Inr _, s1) \<Rightarrow> s1)"

text \<open>\<^verbatim>\<open>initDroplet\<close> up to \<^verbatim>\<open>await ssh.connect(this.sshConfig)\<close>.\<close>

definition initDroplet_begin :: "system \<Rightarrow> system" where
  "initDroplet_begin s =
    (let s1 = emit (LoggerLog ''Initializing droplet with SSH...'') s;
         ssh = next_ssh s1;
         s2 = emit (NewSSH ssh) (s1\<lparr>next_ssh := Suc ssh\<rparr>);
         s3 = emit (Connect ssh (sshConfig (ctl s2))) s2
     in suspend (AwaitConnect ssh) s3)"

definition initDroplet_catch :: "error \<Rightarrow> system \<Rightarrow> system" where
  "initDroplet_catch err s =
    set_status Weird
      (emit (LoggerErrorObj err) (emit (LoggerError ''Could not run initialization script!'') s))"

text \<open>\<^verbatim>\<open>initDroplet\<close> from the answer of \<^verbatim>\<open>connect\<close> on.\<close>

definition initDroplet_resume :: "session \<Rightarrow> error + unit \<Rightarrow> system \<Rightarrow> system" where
  "initDroplet_resume ssh r s =
    (case r of
       Inl err \<Rightarrow> initDroplet_catch err s
     | Inr _ \<Rightarrow>
         (let s1 = fold (\<lambda>cmd. runSSHCommand_detached cmd (Some ssh) True)
                     (for_in_keys initializationScript) s;
              s2 = emit (LoggerLog ''Droplet initialized!'') s1;
              s3 = set_status Up s2
          in (case creationCallback (ctl s3) of
                None \<Rightarrow> s3
              | Some (Callback n thrown) \<Rightarrow>
                  (let s4 = emit (InvokeCallback n) s3
                   in (case thrown of None \<Rightarrow> s4 | Some err \<Rightarrow> initDroplet_catch err s4)))))"

text \<open>\<^verbatim>\<open>waitForDroplet\<close> up to \<^verbatim>\<open>await this.doService.getDroplet(this.dropletId)\<close>.\<close>

definition waitForDroplet_begin :: "this_ref \<Rightarrow> system \<Rightarrow> system" where
  "waitForDroplet_begin this s =
    (case this of
       ThisService \<Rightarrow> suspend AwaitGetDroplet (emit (GetDropletCall (dropletId (ctl s))) s)
     | ThisTimeout \<Rightarrow>
         emit (UnhandledRejection
                 (Error ''TypeError: this.doService is undefined'')) s)"

definition reschedule :: "system \<Rightarrow> system" where
  "reschedule s = suspend (Timer 5000) (emit (SetTimeout 5000) s)"

text \<open>\<^verbatim>\<open>waitForDroplet\<close> (called on the service) from the answer of \<^verbatim>\<open>getDroplet\<close> on.\<close>

definition waitForDroplet_resume :: "error + droplet_info \<Rightarrow> system \<Rightarrow> system" where
  "waitForDroplet_resume r s =
    (case r of
       Inl e \<Rightarrow> emit (UnhandledRejection e) s
     | Inr res \<Rightarrow>
         (if res_status res \<noteq> ''active''
          then reschedule
                 (emit (LoggerLog (''Droplet '' @ show_id (dropletId (ctl s))
                          @ '' not active. Waiting...'')) s)
          else if falsy (ip_address res)
          then reschedule
                 (emit (LoggerLog (''Droplet '' @ show_id (dropletId (ctl s))
                          @ '' is active but without network. Waiting...'')) s)
          else initDroplet_begin (s\<lparr>ctl := (ctl s)\<lparr>ipv4 := ip_address res\<rparr>\<rparr>)))"

text \<open>\<^verbatim>\<open>createServer(callback)\<close>; \<open>r\<close> is the answer of \<^verbatim>\<open>createDroplet\<close>.\<close>

definition createServer ::
    "callback option \<Rightarrow> error + nat \<Rightarrow> system \<Rightarrow> (error + unit) \<times> system" where
  "createServer callback r s =
    (if status (ctl s) \<noteq> Down
     then (Inr (), emit (LoggerWarn ''Refusing to create server when status is not 'down'.'') s)
     else
       (let s1 = s\<lparr>ctl := (ctl s)\<lparr>creationCallback := callback\<rparr>\<rparr>;
            s2 = set_status Starting s1;
            s3 = emit CreateDropletCall s2
        in (case r of
              Inr newId \<Rightarrow>
                (let s4 = s3\<lparr>ctl := (ctl s3)\<lparr>dropletId := Some newId\<rparr>\<rparr>;
                     s5 = emit (LoggerLog (''Created droplet with ID '' @ show_id (dropletId (ctl s4))
                                  @ ''. Waiting for network...'')) s4
                 in (Inr (), waitForDroplet_begin ThisService s5))
            | Inl err \<Rightarrow>
                (Inr (),
                 set_status Down
                   (emit (LoggerErrorObj err)
                      (emit (LoggerError ''Error while creating droplet!'') s3))))))"

text \<open>
  \<^verbatim>\<open>stopServer()\<close>; \<open>r\<close> is the answer of \<^verbatim>\<open>execCommand\<close> inside \<^verbatim>\<open>runSSHCommand\<close> and
  \<open>d\<close> the answer of \<^verbatim>\<open>deleteDroplet\<close>.
\<close>

definition stopServer ::
    "error + exec_response \<Rightarrow> error + unit \<Rightarrow> system \<Rightarrow> (error + unit) \<times> system" where
  "stopServer r d s =
    (if status (ctl s) \<noteq> Up \<and> status (ctl s) \<noteq> Weird
     then (Inr (),
           emit (LoggerWarn ''Refusing to stop server when status is not 'up'/'weird'.'') s)
     else
       (let s1 = emit (LoggerLog ''Stopping droplet!'') s;
            s2 = set_status Stopping s1;
            s3 = emit (LoggerLog ''Running 'systemctl stop minecraft'...'') s2
        in (case runSSHCommand ''systemctl stop minecraft'' None True r s3 of
              (Inl e, s4) \<Rightarrow> (Inl e, s4)
            | (Inr _, s4) \<Rightarrow>
                (let s5 = emit (LoggerLog (''Deleting droplet with ID = ''
                                  @ show_id (dropletId (ctl s4)))) s4;
                     s6 = emit (DeleteDropletCall (dropletId (ctl s5))) s5
                 in (case d of
                       Inl e \<Rightarrow> (Inl e, s6)
                     | Inr _ \<Rightarrow>
                         (Inr (), set_status Down (emit (LoggerLog ''Server stopped!'') s6)))))))"

definition forceStatus :: "ServerStatus \<Rightarrow> system \<Rightarrow> system" where
  "forceStatus newStatus s =
    set_status newStatus
      (emit (LoggerWarn (''Forcing status to be '' @ show_status newStatus)) s)"

text \<open>\<^verbatim>\<open>getStatus()\<close>: the object \<^verbatim>\<open>{status, ipv4, dropletId}\<close> as a triple.\<close>

definition getStatus :: "system \<Rightarrow> ServerStatus \<times> string option \<times> nat option" where
  "getStatus s = (status (ctl s), ipv4 (ctl s), dropletId (ctl s))"

subsection \<open>Sequences of operations\<close>

text \<open>
  What can happen to the controller: a call of a public method, together with the answers
  its awaited calls get, or the settling of a suspended call, or a timer firing. A
  settling with no suspended call of its kind changes nothing.
\<close>

datatype op =
    CreateServer "callback option" "error + nat"
  | StopServer "error + exec_response" "error + unit"
  | ForceStatus ServerStatus
  | GetStatus
  | GetDropletSettles "error + droplet_info"
  | TimerFires
  | ConnectSettles "error + unit"
  | ExecSettles "error + exec_response"

fun is_AwaitGetDroplet :: "task \<Rightarrow> bool" where
  "is_AwaitGetDroplet AwaitGetDroplet = True"
| "is_AwaitGetDroplet _ = False"

fun is_Timer :: "task \<Rightarrow> bool" where
  "is_Timer (Timer _) = True"
| "is_Timer _ = False"

fun is_AwaitConnect :: "task \<Rightarrow> bool" where
  "is_AwaitConnect (AwaitConnect _) = True"
| "is_AwaitConnect _ = False"

fun is_AwaitExec :: "task \<Rightarrow> bool" where
  "is_AwaitExec (AwaitExec _ _ _ _) = True"
| "is_AwaitExec _ = False"

fun step :: "op \<Rightarrow> system \<Rightarrow> system" where
  "step (CreateServer callback r) s = snd (createServer callback r s)"
| "step (StopServer r d) s = snd (stopServer r d s)"
| "step (ForceStatus newStatus) s = forceStatus newStatus s"
| "step GetStatus s = s"
| "step (GetDropletSettles r) s =
     (case take_task is_AwaitGetDroplet (pending s) of
        Some (_, rest) \<Rightarrow> waitForDroplet_resume r (s\<lparr>pending := rest\<rparr>)
      | None \<Rightarrow> s)"
| "step TimerFires s =
     (case take_task is_Timer (pending s) of
        Some (_, rest) \<Rightarrow> waitForDroplet_begin ThisTimeout (s\<lparr>pending := rest\<rparr>)
      | None \<Rightarrow> s)"
| "step (ConnectSettles r) s =
     (case take_task is_AwaitConnect (pending s) of
        Some (AwaitConnect ssh, rest) \<Rightarrow> initDroplet_resume ssh r (s\<lparr>pending := rest\<rparr>)
      | _ \<Rightarrow> s)"
| "step (ExecSettles r) s =
     (case take_task is_AwaitExec (pending s) of
        Some (AwaitExec ssh command disposeSSH logOutput, rest) \<Rightarrow>
          runSSHCommand_settle ssh command disposeSSH logOutput r (s\<lparr>pending := rest\<rparr>)
      | _ \<Rightarrow> s)"

definition run :: "op list \<Rightarrow> system \<Rightarrow> system" where
  "run ops s = fold step ops s"

subsection \<open>Reading a trace\<close>

text \<open>The configurations handed to \<^verbatim>\<open>ssh.connect\<close>, in order.\<close>

definition connect_configs :: "event list \<Rightarrow> ssh_config list" where
  "connect_configs tr = concat (map (\<lambda>e. case e of Connect _ c \<Rightarrow> [c] | _ \<Rightarrow> []) tr)"

text \<open>The commands handed to \<^verbatim>\<open>ssh.execCommand\<close>, each with its session, in order.\<close>

definition executed :: "event list \<Rightarrow> (session \<times> string) list" where
  "executed tr = concat (map (\<lambda>e. case e of ExecCommand ssh c \<Rightarrow> [(ssh, c)] | _ \<Rightarrow> []) tr)"

fun is_ConsoleLog :: "event \<Rightarrow> bool" where
  "is_ConsoleLog (ConsoleLog _) = True"
| "is_ConsoleLog _ = False"

fun is_ForceStatus :: "op \<Rightarrow> bool" where
  "is_ForceStatus (ForceStatus _) = True"
| "is_ForceStatus _ = False"

subsection \<open>Reference inputs\<close>

definition not_ready :: droplet_info where
  "not_ready = \<lparr>res_status = ''new'', ip_address = None\<rparr>"

definition ready :: droplet_info where
  "ready = \<lparr>res_status = ''active'', ip_address = Some ''1.2.3.4''\<rparr>"

definition exit0 :: exec_response where
  "exit0 = \<lparr>stdout = ''ok'', stderr = [], code = Some 0, signal = None\<rparr>"

text \<open>
  A server brought up: the droplet is created with ID 42, the first poll finds it active
  at 1.2.3.4, and the connection of \<^verbatim>\<open>initDroplet\<close> succeeds.
\<close>

definition bring_up :: "op list" where
  "bring_up =
    [CreateServer (Some (Callback 7 None)) (Inr 42),
     GetDropletSettles (Inr ready),
     ConnectSettles (Inr ())]"

text \<open>The teardown of that server, the stop command and the deletion both succeeding.\<close>

definition tear_down :: "op list" where
  "tear_down = [StopServer (Inr exit0) (Inr ())]"

text \<open>
  The scenario of two polls: the first finds the droplet not active, the timer fires, and
  the provider would then report the droplet active at 1.2.3.4 and accept the connection.
\<close>

definition poll_twice :: "op list" where
  "poll_twice =
    [CreateServer (Some (Callback 7 None)) (Inr 42),
     GetDropletSettles (Inr not_ready),
     TimerFires,
     GetDropletSettles (Inr ready),
     ConnectSettles (Inr ())]"

subsection \<open>Invariants\<close>

text \<open>While no droplet ID is recorded, the status is down and nothing is suspended.\<close>

definition handle_inv :: "system \<Rightarrow> bool" where
  "handle_inv s = (dropletId (ctl s) \<noteq> None \<or> (status (ctl s) = Down \<and> pending s = []))"

text \<open>The stored configuration is \<open>c\<close>, and so is every configuration handed to \<^verbatim>\<open>connect\<close>.\<close>

definition cfg_inv :: "ssh_config \<Rightarrow> system \<Rightarrow> bool" where
  "cfg_inv c s = (sshConfig (ctl s) = c \<and> list_all (\<lambda>x. x = c) (connect_configs (trace s)))"

section \<open>Helper lemmas\<close>

lemmas sys_defs = emit_def set_status_def suspend_def

lemmas ssh_defs = runSSHCommand_def runSSHCommand_begin_def runSSHCommand_end_def

lemma run_Nil: "run [] s = s"
  by (simp add: run_def)

lemma run_Cons: "run (x # xs) s = run xs (step x s)"
  by (simp add: run_def)

lemma run_append: "run (xs @ ys) s = run ys (run xs s)"
  by (simp add: run_def)

text \<open>
  The loop of \<^verbatim>\<open>initDroplet\<close> starts one command per key on the shared session and
  waits for none of them.
\<close>

lemma fold_detached:
  "fold (\<lambda>cmd. runSSHCommand_detached cmd (Some ssh) lo) cmds s =
     s\<lparr>pending := pending s @ map (\<lambda>c. AwaitExec ssh c False lo) cmds,
       trace := trace s @ map (ExecCommand ssh) cmds\<rparr>"
  by (induction cmds arbitrary: s)
     (simp_all add: runSSHCommand_detached_def runSSHCommand_begin_def sys_defs)

lemma keys_script:
  "for_in_keys initializationScript
     = [''0'', ''1'', ''2'', ''3'', ''4'', ''5'', ''6'', ''7'', ''8'']"
  by code_simp

lemma string_of_nat_42: "string_of_nat 42 = ''42''"
  by code_simp

lemma initial_fields:
  "status (ctl (initial key)) = Down" "dropletId (ctl (initial key)) = None"
  "pending (initial key) = []"
  by (simp_all add: initial_def constructor_def fields_init_def)

subsection \<open>The reference runs\<close>

lemma bring_up_state:
  "run bring_up (initial key) =
    \<lparr>ctl = \<lparr>privateKeyPath = key,
            sshConfig = \<lparr>host = None, username = ''root'', privateKey = key\<rparr>,
            creationCallback = Some (Callback 7 None), status = Up,
            dropletId = Some 42, ipv4 = Some ''1.2.3.4''\<rparr>,
     pending = map (\<lambda>c. AwaitExec 0 c False True) (for_in_keys initializationScript),
     trace =
       [CreateDropletCall,
        LoggerLog ''Created droplet with ID 42. Waiting for network...'',
        GetDropletCall (Some 42),
        LoggerLog ''Initializing droplet with SSH...'',
        NewSSH 0,
        Connect 0 \<lparr>host = None, username = ''root'', privateKey = key\<rparr>]
       @ map (ExecCommand 0) (for_in_keys initializationScript)
       @ [LoggerLog ''Droplet initialized!'', InvokeCallback 7],
     next_ssh = 1\<rparr>"
  by (simp add: run_def bring_up_def initial_def constructor_def fields_init_def
        createServer_def waitForDroplet_begin_def waitForDroplet_resume_def ready_def falsy_def
        initDroplet_begin_def initDroplet_resume_def fold_detached sys_defs show_id_def
        string_of_nat_42 del: string_of_nat.simps)

lemma torn_down_state:
  "ctl (run (bring_up @ tear_down) (initial key)) =
     \<lparr>privateKeyPath = key,
      sshConfig = \<lparr>host = None, username = ''root'', privateKey = key\<rparr>,
      creationCallback = Some (Callback 7 None), status = Down,
      dropletId = Some 42, ipv4 = Some ''1.2.3.4''\<rparr>"
  by (simp add: run_append bring_up_state tear_down_def run_Cons run_Nil stopServer_def
        ssh_defs sys_defs Let_def)

lemma starting_state:
  "status (ctl (run [CreateServer None (Inr 42)] (initial None))) = Starting"
  by (simp add: run_Cons run_Nil createServer_def waitForDroplet_begin_def sys_defs Let_def
        initial_fields)

subsection \<open>The stored SSH configuration\<close>

lemma connect_configs_Nil [simp]: "connect_configs [] = []"
  by (simp add: connect_configs_def)

lemma connect_configs_Cons:
  "connect_configs (e # es)
     = (case e of Connect _ c \<Rightarrow> [c] | _ \<Rightarrow> []) @ connect_configs es"
  by (simp add: connect_configs_def)

lemma connect_configs_append [simp]:
  "connect_configs (xs @ ys) = connect_configs xs @ connect_configs ys"
  by (simp add: connect_configs_def)

lemma connect_configs_execs [simp]: "connect_configs (map (ExecCommand ssh) cmds) = []"
  by (induction cmds) (simp_all add: connect_configs_def)

lemma cfg_inv_pending: "cfg_inv c (s\<lparr>pending := p\<rparr>) = cfg_inv c s"
  by (simp add: cfg_inv_def)

lemma cfg_inv_createServer: "cfg_inv c s \<Longrightarrow> cfg_inv c (snd (createServer cb r s))"
  by (cases r)
     (simp_all add: cfg_inv_def createServer_def waitForDroplet_begin_def sys_defs Let_def
        connect_configs_Cons)

lemma cfg_inv_stopServer: "cfg_inv c s \<Longrightarrow> cfg_inv c (snd (stopServer r d s))"
  by (cases r; cases d)
     (simp_all add: cfg_inv_def stopServer_def ssh_defs sys_defs Let_def connect_configs_Cons)

lemma cfg_inv_forceStatus: "cfg_inv c s \<Longrightarrow> cfg_inv c (forceStatus n s)"
  by (simp add: cfg_inv_def forceStatus_def sys_defs connect_configs_Cons)

lemma cfg_inv_waitForDroplet_resume: "cfg_inv c s \<Longrightarrow> cfg_inv c (waitForDroplet_resume r s)"
  by (cases r)
     (simp_all add: cfg_inv_def waitForDroplet_resume_def reschedule_def initDroplet_begin_def
        sys_defs Let_def connect_configs_Cons)

lemma cfg_inv_waitForDroplet_begin: "cfg_inv c s \<Longrightarrow> cfg_inv c (waitForDroplet_begin this s)"
  by (cases this)
     (simp_all add: cfg_inv_def waitForDroplet_begin_def sys_defs connect_configs_Cons)

lemma cfg_inv_initDroplet_resume: "cfg_inv c s \<Longrightarrow> cfg_inv c (initDroplet_resume ssh r s)"
  by (cases r)
     (auto simp add: cfg_inv_def initDroplet_resume_def initDroplet_catch_def fold_detached
        sys_defs Let_def connect_configs_Cons split: option.splits callback.splits)

lemma cfg_inv_settle:
  "cfg_inv c s \<Longrightarrow> cfg_inv c (runSSHCommand_settle ssh cmd dsp lo r s)"
  by (cases r)
     (simp_all add: cfg_inv_def runSSHCommand_settle_def runSSHCommand_end_def sys_defs Let_def
        connect_configs_Cons)

lemma cfg_inv_step:
  assumes "cfg_inv c s"
  shows "cfg_inv c (step x s)"
proof (cases x)
  case (CreateServer cb r)
  with assms show ?thesis by (simp add: cfg_inv_createServer)
next
  case (StopServer r d)
  with assms show ?thesis by (simp add: cfg_inv_stopServer)
next
  case (ForceStatus n)
  with assms show ?thesis by (simp add: cfg_inv_forceStatus)
next
  case GetStatus
  with assms show ?thesis by simp
next
  case (GetDropletSettles r)
  with assms show ?thesis
    by (auto simp add: cfg_inv_waitForDroplet_resume cfg_inv_pending split: option.splits)
next
  case TimerFires
  with assms show ?thesis
    by (auto simp add: cfg_inv_waitForDroplet_begin cfg_inv_pending split: option.splits)
next
  case (ConnectSettles r)
  with assms show ?thesis
    by (auto simp add: cfg_inv_initDroplet_resume cfg_inv_pending
          split: option.splits task.splits)
next
  case (ExecSettles r)
  with assms show ?thesis
    by (auto simp add: cfg_inv_settle cfg_inv_pending split: option.splits task.splits)
qed

lemma cfg_inv_run: "cfg_inv c s \<Longrightarrow> cfg_inv c (run ops s)"
  by (induction ops arbitrary: s) (simp_all add: run_Nil run_Cons cfg_inv_step)

lemma cfg_inv_initial:
  "cfg_inv \<lparr>host = None, username = ''root'', privateKey = key\<rparr> (initial key)"
  by (simp add: cfg_inv_def initial_def constructor_def fields_init_def)

subsection \<open>The recorded droplet ID\<close>

lemma dropletId_createServer:
  "dropletId (ctl s) \<noteq> None \<Longrightarrow> dropletId (ctl (snd (createServer cb r s))) \<noteq> None"
  by (cases r) (simp_all add: createServer_def waitForDroplet_begin_def sys_defs Let_def)

lemma dropletId_stopServer: "dropletId (ctl (snd (stopServer r d s))) = dropletId (ctl s)"
  by (cases r; cases d) (simp_all add: stopServer_def ssh_defs sys_defs Let_def)

lemma dropletId_waitForDroplet_resume:
  "dropletId (ctl (waitForDroplet_resume r s)) = dropletId (ctl s)"
  by (cases r)
     (simp_all add: waitForDroplet_resume_def reschedule_def initDroplet_begin_def sys_defs
        Let_def)

lemma dropletId_waitForDroplet_begin:
  "dropletId (ctl (waitForDroplet_begin this s)) = dropletId (ctl s)"
  by (cases this) (simp_all add: waitForDroplet_begin_def sys_defs)

lemma dropletId_initDroplet_resume:
  "dropletId (ctl (initDroplet_resume ssh r s)) = dropletId (ctl s)"
  by (cases r)
     (auto simp add: initDroplet_resume_def initDroplet_catch_def fold_detached sys_defs Let_def
        split: option.splits callback.splits)

lemma dropletId_settle:
  "dropletId (ctl (runSSHCommand_settle ssh cmd dsp lo r s)) = dropletId (ctl s)"
  by (cases r) (simp_all add: runSSHCommand_settle_def runSSHCommand_end_def sys_defs Let_def)

lemma dropletId_step:
  "\<not> is_ForceStatus x \<Longrightarrow> dropletId (ctl s) \<noteq> None \<Longrightarrow> dropletId (ctl (step x s)) \<noteq> None"
  by (cases x)
     (auto simp add: dropletId_createServer dropletId_stopServer dropletId_waitForDroplet_resume
        dropletId_waitForDroplet_begin dropletId_initDroplet_resume dropletId_settle
        split: option.splits task.splits)

text \<open>From a state with no droplet ID, down and with nothing suspended.\<close>

lemma handle_inv_fresh_step:
  assumes "\<not> is_ForceStatus x" and "dropletId (ctl s) = None"
    and "status (ctl s) = Down" and "pending s = []"
  shows "handle_inv (step x s)"
proof (cases x)
  case (CreateServer cb r)
  then show ?thesis using assms
    by (cases r)
       (simp_all add: handle_inv_def createServer_def waitForDroplet_begin_def sys_defs Let_def)
next
  case (StopServer r d)
  then show ?thesis using assms by (simp add: handle_inv_def stopServer_def sys_defs)
next
  case (ForceStatus n)
  then show ?thesis using assms by simp
qed (use assms in \<open>simp_all add: handle_inv_def\<close>)

lemma handle_inv_step:
  assumes nf: "\<not> is_ForceStatus x" and inv: "handle_inv s"
  shows "handle_inv (step x s)"
proof (cases "dropletId (ctl s) = None")
  case True
  with inv have "status (ctl s) = Down" "pending s = []"
    by (simp_all add: handle_inv_def)
  with nf True show ?thesis by (simp add: handle_inv_fresh_step)
next
  case False
  with nf have "dropletId (ctl (step x s)) \<noteq> None" by (rule dropletId_step)
  then show ?thesis by (simp add: handle_inv_def)
qed

lemma handle_inv_run:
  "list_all (\<lambda>x. \<not> is_ForceStatus x) ops \<Longrightarrow> handle_inv s \<Longrightarrow> handle_inv (run ops s)"
  by (induction ops arbitrary: s) (simp_all add: run_Nil run_Cons handle_inv_step)

lemma handle_inv_initial: "handle_inv (initial key)"
  by (simp add: handle_inv_def initial_fields)

subsection \<open>runSSHCommand as one equation\<close>

text \<open>
  What an awaited \<^verbatim>\<open>runSSHCommand\<close> leaves when \<^verbatim>\<open>execCommand\<close> answers with a result,
  and when it throws.
\<close>

lemma runSSHCommand_result_eq:
  "runSSHCommand command ssh logOutput (Inr result) s =
     (Inr result,
      s\<lparr>trace := trace s
           @ (case ssh of
                None \<Rightarrow> [NewSSH (next_ssh s), Connect (next_ssh s) (sshConfig (ctl s)),
                         ExecCommand (next_ssh s) command]
              | Some sid \<Rightarrow> [ExecCommand sid command])
           @ (if logOutput
              then [ConsoleLog (''Command: '' @ command @ '', Output:''),
                    ConsoleLog (stdout result), ConsoleLog (stderr result)]
              else [])
           @ (case ssh of None \<Rightarrow> [Dispose (next_ssh s)] | Some sid \<Rightarrow> []),
         next_ssh := (case ssh of None \<Rightarrow> Suc (next_ssh s) | Some sid \<Rightarrow> next_ssh s)\<rparr>)"
  by (cases ssh) (simp_all add: ssh_defs sys_defs Let_def)

lemma runSSHCommand_throw_eq:
  "runSSHCommand command ssh logOutput (Inl e) s =
     (Inl e,
      s\<lparr>trace := trace s
           @ (case ssh of
                None \<Rightarrow> [NewSSH (next_ssh s), Connect (next_ssh s) (sshConfig (ctl s)),
                         ExecCommand (next_ssh s) command]
              | Some sid \<Rightarrow> [ExecCommand sid command]),
         next_ssh := (case ssh of None \<Rightarrow> Suc (next_ssh s) | Some sid \<Rightarrow> next_ssh s)\<rparr>)"
  by (cases ssh) (simp_all add: ssh_defs sys_defs Let_def)

section \<open>The claims\<close>

subsection \<open>C1: what the provisioning step executes\<close>

text \<open>
  C1 says that \<^verbatim>\<open>initDroplet\<close> runs every command of the initialization script, in
  order, over one shared session, logs each output, and has run all of them before the
  status becomes up. The loop is \<^verbatim>\<open>for (const cmd in initializationScript)\<close>, which
  enumerates the keys of the array, and no \<^verbatim>\<open>runSSHCommand\<close> call is awaited. In the
  reference run (droplet 42 created, first poll active at 1.2.3.4, connection accepted)
  the commands handed to the shared session 0 are the strings 0 to 8, none of them is a
  command of the script, the status is already up, and no output has been logged.
\<close>

theorem initDroplet_executes_keys:
  "executed (trace (run bring_up (initial key)))
     = map (Pair 0) [''0'', ''1'', ''2'', ''3'', ''4'', ''5'', ''6'', ''7'', ''8'']
   \<and> set (map snd (executed (trace (run bring_up (initial key)))))
        \<inter> set initializationScript = {}
   \<and> status (ctl (run bring_up (initial key))) = Up
   \<and> filter is_ConsoleLog (trace (run bring_up (initial key))) = []"
proof -
  have ex: "executed (trace (run bring_up (initial key)))
      = map (Pair 0) [''0'', ''1'', ''2'', ''3'', ''4'', ''5'', ''6'', ''7'', ''8'']"
    by (simp add: bring_up_state keys_script executed_def)
  have disj:
    "set (map snd (map (Pair (0::nat))
        [''0'', ''1'', ''2'', ''3'', ''4'', ''5'', ''6'', ''7'', ''8'']))
      \<inter> set initializationScript = {}"
    by (simp add: initializationScript_def)
  have st: "status (ctl (run bring_up (initial key))) = Up"
    by (simp add: bring_up_state)
  have quiet: "filter is_ConsoleLog (trace (run bring_up (initial key))) = []"
    by (simp add: bring_up_state keys_script)
  show ?thesis
    using ex disj st quiet by simp
qed

subsection \<open>C2: stopServer\<close>

text \<open>
  C2 as amended: for every call of \<^verbatim>\<open>stopServer\<close> while the status is up or weird in
  which the graceful-stop command returns a result (whatever its exit status) and the
  deletion succeeds, \<^verbatim>\<open>deleteDroplet\<close> is called on the recorded droplet ID and the
  status ends down; the droplet ID and the address keep their values.
\<close>

theorem stopServer_deletes_and_keeps_handle:
  assumes "status (ctl s) = Up \<or> status (ctl s) = Weird"
  shows "stopServer (Inr result) (Inr ()) s =
     (Inr (),
      s\<lparr>ctl := (ctl s)\<lparr>status := Down\<rparr>,
        trace := trace s
          @ [LoggerLog ''Stopping droplet!'',
             LoggerLog ''Running 'systemctl stop minecraft'...'',
             NewSSH (next_ssh s),
             Connect (next_ssh s) (sshConfig (ctl s)),
             ExecCommand (next_ssh s) ''systemctl stop minecraft'',
             ConsoleLog ''Command: systemctl stop minecraft, Output:'',
             ConsoleLog (stdout result),
             ConsoleLog (stderr result),
             Dispose (next_ssh s),
             LoggerLog (''Deleting droplet with ID = '' @ show_id (dropletId (ctl s))),
             DeleteDropletCall (dropletId (ctl s)),
             LoggerLog ''Server stopped!''],
        next_ssh := Suc (next_ssh s)\<rparr>)
   \<and> status (ctl (snd (stopServer (Inr result) (Inr ()) s))) = Down
   \<and> dropletId (ctl (snd (stopServer (Inr result) (Inr ()) s))) = dropletId (ctl s)
   \<and> ipv4 (ctl (snd (stopServer (Inr result) (Inr ()) s))) = ipv4 (ctl s)"
  using assms
  by (auto simp add: stopServer_def ssh_defs sys_defs Let_def)

theorem stopServer_deletes_and_keeps_handle_witness:
  "(status (ctl (run bring_up (initial None))) = Up
      \<or> status (ctl (run bring_up (initial None))) = Weird)
   \<and> fst (stopServer (Inr exit0) (Inr ()) (run bring_up (initial None))) = Inr ()
   \<and> DeleteDropletCall (Some 42)
        \<in> set (trace (snd (stopServer (Inr exit0) (Inr ()) (run bring_up (initial None)))))
   \<and> status (ctl (snd (stopServer (Inr exit0) (Inr ()) (run bring_up (initial None))))) = Down
   \<and> dropletId (ctl (snd (stopServer (Inr exit0) (Inr ()) (run bring_up (initial None)))))
        = Some 42"
proof -
  have up: "status (ctl (run bring_up (initial None))) = Up
      \<or> status (ctl (run bring_up (initial None))) = Weird"
    by (simp add: bring_up_state)
  have h: "dropletId (ctl (run bring_up (initial None))) = Some 42"
    by (simp add: bring_up_state)
  show ?thesis
    using up h stopServer_deletes_and_keeps_handle [OF up, of exit0] by simp
qed

text \<open>
  C2 as stated fails on the server brought up with droplet 42: when the graceful-stop
  command throws, \<^verbatim>\<open>stopServer\<close> throws too, \<^verbatim>\<open>deleteDroplet\<close> is not called and the
  status stays stopping; when everything succeeds the status is down, but the droplet ID
  is still 42 and the address still 1.2.3.4.
\<close>

theorem stopServer_counterexample:
  "status (ctl (run bring_up (initial None))) = Up
   \<and> dropletId (ctl (run bring_up (initial None))) = Some 42
   \<and> fst (stopServer (Inl (Error ''Not connected to server'')) (Inr ())
            (run bring_up (initial None)))
       = Inl (Error ''Not connected to server'')
   \<and> DeleteDropletCall (Some 42)
       \<notin> set (trace (snd (stopServer (Inl (Error ''Not connected to server'')) (Inr ())
                             (run bring_up (initial None)))))
   \<and> status (ctl (snd (stopServer (Inl (Error ''Not connected to server'')) (Inr ())
                         (run bring_up (initial None))))) = Stopping
   \<and> status (ctl (snd (stopServer (Inr exit0) (Inr ()) (run bring_up (initial None))))) = Down
   \<and> dropletId (ctl (snd (stopServer (Inr exit0) (Inr ()) (run bring_up (initial None)))))
       = Some 42
   \<and> ipv4 (ctl (snd (stopServer (Inr exit0) (Inr ()) (run bring_up (initial None)))))
       = Some ''1.2.3.4''"
  by (simp add: bring_up_state keys_script stopServer_def ssh_defs sys_defs Let_def)

subsection \<open>C3: the droplet ID and the status\<close>

text \<open>
  C3 as amended: for every sequence of controller operations without \<^verbatim>\<open>forceStatus\<close>,
  starting from the initial state, whenever the status is not down a droplet ID is
  recorded.
\<close>

theorem handle_while_not_down:
  assumes "list_all (\<lambda>x. \<not> is_ForceStatus x) ops"
    and "status (ctl (run ops (initial key))) \<noteq> Down"
  shows "dropletId (ctl (run ops (initial key))) \<noteq> None"
proof -
  have "handle_inv (run ops (initial key))"
    using assms(1) handle_inv_initial by (rule handle_inv_run)
  with assms(2) show ?thesis by (simp add: handle_inv_def)
qed

theorem handle_while_not_down_witness:
  "list_all (\<lambda>x. \<not> is_ForceStatus x) [CreateServer None (Inr 42)]
   \<and> status (ctl (run [CreateServer None (Inr 42)] (initial None))) \<noteq> Down
   \<and> dropletId (ctl (run [CreateServer None (Inr 42)] (initial None))) \<noteq> None"
proof -
  have a: "list_all (\<lambda>x. \<not> is_ForceStatus x) [CreateServer None (Inr 42)]"
    by simp
  have b: "status (ctl (run [CreateServer None (Inr 42)] (initial None))) \<noteq> Down"
    by (simp add: starting_state)
  show ?thesis
    using a b handle_while_not_down [OF a b] by simp
qed

text \<open>
  C3 as stated fails in both directions: \<^verbatim>\<open>forceStatus("up")\<close> on the initial state
  gives a status that is not down with no droplet ID, and after a server is brought up
  and torn down the status is down with droplet ID 42 still recorded.
\<close>

theorem handle_iff_not_down_counterexample:
  "status (ctl (run [ForceStatus Up] (initial None))) \<noteq> Down
   \<and> dropletId (ctl (run [ForceStatus Up] (initial None))) = None
   \<and> status (ctl (run (bring_up @ tear_down) (initial None))) = Down
   \<and> dropletId (ctl (run (bring_up @ tear_down) (initial None))) = Some 42"
proof -
  have forced:
    "ctl (run [ForceStatus Up] (initial None)) = (constructor None)\<lparr>status := Up\<rparr>"
    by (simp add: run_Cons run_Nil forceStatus_def sys_defs initial_def)
  have "dropletId (constructor None) = None"
    by (simp add: constructor_def fields_init_def)
  with forced show ?thesis
    by (simp add: torn_down_state)
qed

subsection \<open>C4: a failed creation\<close>

text \<open>
  C4 as amended: if \<^verbatim>\<open>createServer\<close> is called while the status is down and
  \<^verbatim>\<open>createDroplet\<close> fails, the call returns normally, the status is down again, no poll is
  started and the droplet ID field is left as it was before the call (so none is
  recorded if none was); the callback passed stays stored.
\<close>

theorem createServer_failure_keeps_handle:
  assumes "status (ctl s) = Down"
  shows "createServer callback (Inl err) s =
     (Inr (),
      s\<lparr>ctl := (ctl s)\<lparr>creationCallback := callback\<rparr>,
        trace := trace s
          @ [CreateDropletCall, LoggerError ''Error while creating droplet!'',
             LoggerErrorObj err]\<rparr>)
   \<and> status (ctl (snd (createServer callback (Inl err) s))) = Down
   \<and> dropletId (ctl (snd (createServer callback (Inl err) s))) = dropletId (ctl s)
   \<and> pending (snd (createServer callback (Inl err) s)) = pending s"
  using assms
  by (cases "ctl s") (auto simp add: createServer_def sys_defs Let_def)

theorem createServer_failure_keeps_handle_witness:
  "status (ctl (initial None)) = Down
   \<and> status (ctl (snd (createServer None (Inl (Error ''quota'')) (initial None)))) = Down
   \<and> dropletId (ctl (snd (createServer None (Inl (Error ''quota'')) (initial None)))) = None"
proof -
  have d: "status (ctl (initial None)) = Down"
    by (simp add: initial_fields)
  have n: "dropletId (ctl (initial None)) = None"
    by (simp add: initial_fields)
  show ?thesis
    using d n createServer_failure_keeps_handle [OF d, of None "Error ''quota''"] by simp
qed

text \<open>
  C4 as stated fails after a server was brought up and torn down: the status is down,
  \<^verbatim>\<open>createDroplet\<close> fails, and the droplet ID 42 of the deleted droplet is still recorded.
\<close>

theorem createServer_failure_counterexample:
  "status (ctl (run (bring_up @ tear_down) (initial None))) = Down
   \<and> status (ctl (snd (createServer None (Inl (Error ''quota''))
                         (run (bring_up @ tear_down) (initial None))))) = Down
   \<and> dropletId (ctl (snd (createServer None (Inl (Error ''quota''))
                            (run (bring_up @ tear_down) (initial None))))) = Some 42"
  by (simp add: torn_down_state createServer_def sys_defs Let_def)

subsection \<open>C5: the poll loop\<close>

text \<open>
  C5 says that the poll loop retries every 5 seconds without bound until a tick sees
  the droplet active with an address, and then provisions and reaches up. The tick
  scheduled by \<^verbatim>\<open>setTimeout(this.waitForDroplet, 5000)\<close> is the unbound method: when
  the timer calls it, \<^verbatim>\<open>this.doService\<close> is undefined and the call fails before it asks
  the provider anything. In the scenario of two polls the provider is asked once, the
  answers that would follow find nothing waiting for them, the status stays starting,
  no address is recorded and the callback is not called.
\<close>

theorem poll_loop_stops_after_timer:
  "run poll_twice (initial key) =
     \<lparr>ctl = \<lparr>privateKeyPath = key,
             sshConfig = \<lparr>host = None, username = ''root'', privateKey = key\<rparr>,
             creationCallback = Some (Callback 7 None), status = Starting,
             dropletId = Some 42, ipv4 = None\<rparr>,
      pending = [],
      trace =
        [CreateDropletCall,
         LoggerLog ''Created droplet with ID 42. Waiting for network...'',
         GetDropletCall (Some 42),
         LoggerLog ''Droplet 42 not active. Waiting...'',
         SetTimeout 5000,
         UnhandledRejection (Error ''TypeError: this.doService is undefined'')],
      next_ssh = 0\<rparr>"
  by (simp add: run_def poll_twice_def initial_def constructor_def fields_init_def
        createServer_def waitForDroplet_begin_def waitForDroplet_resume_def reschedule_def
        not_ready_def sys_defs show_id_def string_of_nat_42 del: string_of_nat.simps)

subsection \<open>C6: rejected calls\<close>

text \<open>
  C6: \<^verbatim>\<open>createServer\<close> called while the status is not down, and \<^verbatim>\<open>stopServer\<close> called
  while the status is neither up nor weird, return normally and change nothing: the
  fields of the controller and the suspended calls are as before, and the only event is
  the warning of the logger.
\<close>

theorem guard_rejection_noop:
  "(status (ctl s) \<noteq> Down \<longrightarrow>
      createServer callback r s =
        (Inr (), s\<lparr>trace := trace s
           @ [LoggerWarn ''Refusing to create server when status is not 'down'.'']\<rparr>))
   \<and> (status (ctl s) \<noteq> Up \<and> status (ctl s) \<noteq> Weird \<longrightarrow>
      stopServer x d s =
        (Inr (), s\<lparr>trace := trace s
           @ [LoggerWarn ''Refusing to stop server when status is not 'up'/'weird'.'']\<rparr>))"
  by (simp add: createServer_def stopServer_def emit_def)

theorem guard_rejection_noop_witness:
  "status (ctl (run [CreateServer None (Inr 42)] (initial None))) \<noteq> Down
   \<and> status (ctl (run [CreateServer None (Inr 42)] (initial None))) \<noteq> Up
   \<and> status (ctl (run [CreateServer None (Inr 42)] (initial None))) \<noteq> Weird
   \<and> createServer (Some (Callback 1 None)) (Inr 43)
         (run [CreateServer None (Inr 42)] (initial None))
       = (Inr (), (run [CreateServer None (Inr 42)] (initial None))
            \<lparr>trace := trace (run [CreateServer None (Inr 42)] (initial None))
               @ [LoggerWarn ''Refusing to create server when status is not 'down'.'']\<rparr>)
   \<and> stopServer (Inr exit0) (Inr ()) (run [CreateServer None (Inr 42)] (initial None))
       = (Inr (), (run [CreateServer None (Inr 42)] (initial None))
            \<lparr>trace := trace (run [CreateServer None (Inr 42)] (initial None))
               @ [LoggerWarn ''Refusing to stop server when status is not 'up'/'weird'.'']\<rparr>)"
  using starting_state
    guard_rejection_noop [of "run [CreateServer None (Inr 42)] (initial None)"
      "Some (Callback 1 None)" "Inr 43" "Inr exit0" "Inr ()"]
  by simp

subsection \<open>C7: the session opened by runSSHCommand\<close>

text \<open>
  C7 says that a session opened by \<^verbatim>\<open>runSSHCommand\<close> is disposed before it returns,
  on the failure path as on the success path. When \<^verbatim>\<open>execCommand\<close> throws,
  \<^verbatim>\<open>runSSHCommand\<close> throws the same error and the events it leaves are the allocation, the
  connect and the command: \<^verbatim>\<open>dispose\<close> is not called.
\<close>

theorem runSSHCommand_throw_keeps_session:
  "runSSHCommand command None logOutput (Inl e) s =
     (Inl e,
      s\<lparr>trace := trace s
           @ [NewSSH (next_ssh s), Connect (next_ssh s) (sshConfig (ctl s)),
              ExecCommand (next_ssh s) command],
         next_ssh := Suc (next_ssh s)\<rparr>)"
  by (simp add: ssh_defs sys_defs Let_def)

subsection \<open>C8: forceStatus\<close>

text \<open>
  C8: for every status and every prior state, after \<^verbatim>\<open>forceStatus(s)\<close> the status
  that \<^verbatim>\<open>getStatus()\<close> reports is \<open>s\<close>, and the droplet ID, the address, the stored
  callback and the suspended calls are unchanged; the only event is the warning of the
  logger.
\<close>

theorem forceStatus_frame:
  "fst (getStatus (forceStatus newStatus s)) = newStatus
   \<and> getStatus (forceStatus newStatus s) = (newStatus, ipv4 (ctl s), dropletId (ctl s))
   \<and> ctl (forceStatus newStatus s) = (ctl s)\<lparr>status := newStatus\<rparr>
   \<and> dropletId (ctl (forceStatus newStatus s)) = dropletId (ctl s)
   \<and> ipv4 (ctl (forceStatus newStatus s)) = ipv4 (ctl s)
   \<and> creationCallback (ctl (forceStatus newStatus s)) = creationCallback (ctl s)
   \<and> pending (forceStatus newStatus s) = pending s
   \<and> trace (forceStatus newStatus s) =
       trace s @ [LoggerWarn (''Forcing status to be '' @ show_status newStatus)]"
  by (simp add: forceStatus_def getStatus_def sys_defs)

subsection \<open>C9: the SSH configuration\<close>

text \<open>
  C9: the constructor builds the SSH configuration with the host unset, and after every
  sequence of operations the stored configuration is still the one the constructor
  built, and every configuration handed to \<^verbatim>\<open>ssh.connect\<close>, by \<^verbatim>\<open>runSSHCommand\<close> or by
  \<^verbatim>\<open>initDroplet\<close>, is that one, with no host.
\<close>

theorem sshConfig_never_updated:
  "sshConfig (constructor key) = \<lparr>host = None, username = ''root'', privateKey = key\<rparr>
   \<and> sshConfig (ctl (run ops (initial key))) = sshConfig (constructor key)
   \<and> list_all (\<lambda>c. c = sshConfig (constructor key) \<and> host c = None)
        (connect_configs (trace (run ops (initial key))))"
proof -
  have c: "sshConfig (constructor key) = \<lparr>host = None, username = ''root'', privateKey = key\<rparr>"
    by (simp add: constructor_def fields_init_def)
  have "cfg_inv (sshConfig (constructor key)) (run ops (initial key))"
    unfolding c by (rule cfg_inv_run [OF cfg_inv_initial])
  then show ?thesis
    using c by (auto simp add: cfg_inv_def list_all_iff)
qed

text \<open>
  After a server is brought up at 1.2.3.4 and torn down, the address field holds
  1.2.3.4, and both connections (the one of \<^verbatim>\<open>initDroplet\<close> and the one of
  \<^verbatim>\<open>runSSHCommand\<close>) were opened with no host.
\<close>

theorem sshConfig_never_updated_witness:
  "ipv4 (ctl (run (bring_up @ tear_down) (initial None))) = Some ''1.2.3.4''
   \<and> sshConfig (ctl (run (bring_up @ tear_down) (initial None)))
       = \<lparr>host = None, username = ''root'', privateKey = None\<rparr>
   \<and> length (connect_configs (trace (run (bring_up @ tear_down) (initial None)))) = 2
   \<and> list_all (\<lambda>c. host c = None)
        (connect_configs (trace (run (bring_up @ tear_down) (initial None))))"
proof -
  have a: "ipv4 (ctl (run (bring_up @ tear_down) (initial None))) = Some ''1.2.3.4''"
    by (simp add: torn_down_state)
  have n: "length (connect_configs (trace (run (bring_up @ tear_down) (initial None)))) = 2"
    by (simp add: run_append bring_up_state keys_script tear_down_def run_Cons run_Nil
          stopServer_def ssh_defs sys_defs Let_def connect_configs_Cons)
  show ?thesis
    using a n sshConfig_never_updated [of None "bring_up @ tear_down"]
    by (simp add: list_all_iff)
qed

subsection \<open>C10: logOutput\<close>

text \<open>
  C10: for every command, session and answer of \<^verbatim>\<open>execCommand\<close>, what
  \<^verbatim>\<open>runSSHCommand\<close> returns (the result it was given) or throws (the error it was
  given) is the same with \<^verbatim>\<open>logOutput\<close> true and false, and so are the fields of the
  controller and every event that is not a \<^verbatim>\<open>console.log\<close>. The flag decides the
  \<^verbatim>\<open>console.log\<close> events alone: with \<^verbatim>\<open>logOutput\<close> true and a result, the call adds
  exactly three, the command line, the result's stdout and its stderr, in that order
  after the command and before any dispose; with \<^verbatim>\<open>logOutput\<close> false it adds none.
\<close>

theorem logOutput_result:
  "fst (runSSHCommand command ssh True r s) = fst (runSSHCommand command ssh False r s)
   \<and> ctl (snd (runSSHCommand command ssh True r s))
       = ctl (snd (runSSHCommand command ssh False r s))
   \<and> filter (\<lambda>e. \<not> is_ConsoleLog e) (trace (snd (runSSHCommand command ssh True r s)))
       = filter (\<lambda>e. \<not> is_ConsoleLog e) (trace (snd (runSSHCommand command ssh False r s)))
   \<and> fst (runSSHCommand command ssh logOutput (Inr result) s) = Inr result
   \<and> fst (runSSHCommand command ssh logOutput (Inl e) s) = Inl e
   \<and> filter is_ConsoleLog (trace (snd (runSSHCommand command ssh True (Inr result) s)))
       = filter is_ConsoleLog (trace s)
           @ [ConsoleLog (''Command: '' @ command @ '', Output:''),
              ConsoleLog (stdout result), ConsoleLog (stderr result)]
   \<and> filter is_ConsoleLog (trace (snd (runSSHCommand command ssh False r s)))
       = filter is_ConsoleLog (trace s)
   \<and> trace (snd (runSSHCommand command ssh logOutput (Inr result) s))
       = trace s
           @ (case ssh of
                None \<Rightarrow> [NewSSH (next_ssh s), Connect (next_ssh s) (sshConfig (ctl s)),
                         ExecCommand (next_ssh s) command]
              | Some sid \<Rightarrow> [ExecCommand sid command])
           @ (if logOutput
              then [ConsoleLog (''Command: '' @ command @ '', Output:''),
                    ConsoleLog (stdout result), ConsoleLog (stderr result)]
              else [])
           @ (case ssh of None \<Rightarrow> [Dispose (next_ssh s)] | Some sid \<Rightarrow> [])"
proof -
  have same: "fst (runSSHCommand command ssh True r s) = fst (runSSHCommand command ssh False r s)
      \<and> ctl (snd (runSSHCommand command ssh True r s))
          = ctl (snd (runSSHCommand command ssh False r s))
      \<and> filter (\<lambda>e. \<not> is_ConsoleLog e) (trace (snd (runSSHCommand command ssh True r s)))
          = filter (\<lambda>e. \<not> is_ConsoleLog e) (trace (snd (runSSHCommand command ssh False r s)))"
    by (cases ssh; cases r) (simp_all add: ssh_defs sys_defs Let_def)
  have quiet: "filter is_ConsoleLog (trace (snd (runSSHCommand command ssh False r s)))
      = filter is_ConsoleLog (trace s)"
    by (cases ssh; cases r) (simp_all add: ssh_defs sys_defs Let_def)
  have loud: "filter is_ConsoleLog (trace (snd (runSSHCommand command ssh True (Inr result) s)))
      = filter is_ConsoleLog (trace s)
          @ [ConsoleLog (''Command: '' @ command @ '', Output:''),
             ConsoleLog (stdout result), ConsoleLog (stderr result)]"
    by (cases ssh) (simp_all add: runSSHCommand_result_eq)
  show ?thesis
    using same quiet loud
    by (simp add: runSSHCommand_result_eq runSSHCommand_throw_eq)
qed

text \<open>
  The graceful-stop command on the server brought up, answered with exit status 0: the
  result is the same for both values of the flag, three lines are logged with the flag
  true and none with the flag false.
\<close>

theorem logOutput_result_witness:
  "fst (runSSHCommand ''systemctl stop minecraft'' None True (Inr exit0)
          (run bring_up (initial None))) = Inr exit0
   \<and> fst (runSSHCommand ''systemctl stop minecraft'' None False (Inr exit0)
          (run bring_up (initial None))) = Inr exit0
   \<and> filter is_ConsoleLog
        (trace (snd (runSSHCommand ''systemctl stop minecraft'' None True (Inr exit0)
                       (run bring_up (initial None)))))
       = [ConsoleLog ''Command: systemctl stop minecraft, Output:'',
          ConsoleLog ''ok'', ConsoleLog []]
   \<and> filter is_ConsoleLog
        (trace (snd (runSSHCommand ''systemctl stop minecraft'' None False (Inr exit0)
                       (run bring_up (initial None)))))
       = []"
proof -
  let ?c = "''systemctl stop minecraft''"
  let ?s = "run bring_up (initial None)"
  have quiet: "filter is_ConsoleLog (trace ?s) = []"
    by (simp add: bring_up_state keys_script)
  note t = logOutput_result [of ?c None "Inr exit0" ?s True exit0 "Error []"]
  note f = logOutput_result [of ?c None "Inr exit0" ?s False exit0 "Error []"]
  have r1: "fst (runSSHCommand ?c None True (Inr exit0) ?s) = Inr exit0"
    using t by blast
  have r2: "fst (runSSHCommand ?c None False (Inr exit0) ?s) = Inr exit0"
    using f by blast
  have l1: "filter is_ConsoleLog (trace (snd (runSSHCommand ?c None True (Inr exit0) ?s)))
      = filter is_ConsoleLog (trace ?s)
          @ [ConsoleLog (''Command: '' @ ?c @ '', Output:''),
             ConsoleLog (stdout exit0), ConsoleLog (stderr exit0)]"
    using t by blast
  have l2: "filter is_ConsoleLog (trace (snd (runSSHCommand ?c None False (Inr exit0) ?s)))
      = filter is_ConsoleLog (trace ?s)"
    using t by blast
  have ex: "stdout exit0 = ''ok''" "stderr exit0 = []"
    by (simp_all add: exit0_def)
  show ?thesis
    unfolding r1 r2 l1 l2 quiet ex by simp
qed

end
